theory Spec2Isabelle
  imports Main "HOL-Library.Multiset"
begin

section \<open>JavaScript strings\<close>

text \<open>
  A JavaScript string is a sequence of code units. The paths, patterns and lines of a run
  are modelled as HOL strings, a \<^typ>\<open>char\<close> being a code unit from 0 to 255. The string
  operations below, and \<^verbatim>\<open>fmtu\<close>, are defined for code units of any type \<open>'c\<close>.

  \<^verbatim>\<open>String.prototype.toUpperCase\<close> follows the case mapping of Unicode: it changes letters
  outside ASCII (\<open>0xE9\<close> becomes \<open>0xC9\<close>) and can lengthen a string (\<open>0xDF\<close> becomes
  \<open>SS\<close>). It belongs to the runtime and is a parameter of the model, written
  \<open>toUpperCase\<close>; what a theorem needs of it is a hypothesis of that theorem.
\<close>

text \<open>The letters and digits of ASCII, and the case table of ASCII.\<close>

definition lower_chars :: string where
  "lower_chars = ''abcdefghijklmnopqrstuvwxyz''"

definition upper_chars :: string where
  "upper_chars = ''ABCDEFGHIJKLMNOPQRSTUVWXYZ''"

definition digit_chars :: string where
  "digit_chars = ''0123456789''"

definition is_lower :: "char \<Rightarrow> bool" where
  "is_lower c = (c \<in> set lower_chars)"

definition is_upper :: "char \<Rightarrow> bool" where
  "is_upper c = (c \<in> set upper_chars)"

definition is_digit :: "char \<Rightarrow> bool" where
  "is_digit c = (c \<in> set digit_chars)"

definition is_alpha :: "char \<Rightarrow> bool" where
  "is_alpha c = (is_lower c \<or> is_upper c)"

definition ascii_upper :: "char \<Rightarrow> char" where
  "ascii_upper c = (case map_of (zip lower_chars upper_chars) c of Some u \<Rightarrow> u | None \<Rightarrow> c)"

definition ascii_lower :: "char \<Rightarrow> char" where
  "ascii_lower c = (case map_of (zip upper_chars lower_chars) c of Some l \<Rightarrow> l | None \<Rightarrow> c)"

text \<open>\<^verbatim>\<open>s.charAt(0)\<close>: the first character as a string, the empty string when \<open>s\<close> is empty.\<close>

definition charAt0 :: "'c list \<Rightarrow> 'c list" where
  "charAt0 s = take 1 s"

text \<open>\<^verbatim>\<open>s.slice(1)\<close>\<close>

definition slice1 :: "'c list \<Rightarrow> 'c list" where
  "slice1 s = drop 1 s"

text \<open>\<^verbatim>\<open>s.startsWith(p)\<close>\<close>

definition startsWith :: "string \<Rightarrow> string \<Rightarrow> bool" where
  "startsWith s p = (take (length p) s = p)"

text \<open>\<^verbatim>\<open>s.includes(c)\<close> for a one-character needle.\<close>

definition includes_char :: "string \<Rightarrow> char \<Rightarrow> bool" where
  "includes_char s c = (c \<in> set s)"

text \<open>
  \<^verbatim>\<open>s.split(sep)\<close> where the separator matches exactly one character, those satisfying \<open>P\<close>:
  the pieces between the separators, empty pieces kept; the empty string gives one empty piece.
\<close>

fun split_where :: "('c \<Rightarrow> bool) \<Rightarrow> 'c list \<Rightarrow> 'c list list" where
  "split_where P [] = [[]]"
| "split_where P (c # cs) =
     (if P c then [] # split_where P cs
      else (case split_where P cs of
              [] \<Rightarrow> [[c]]
            | w # ws \<Rightarrow> (c # w) # ws))"

text \<open>\<^verbatim>\<open>xs.join(sep)\<close>\<close>

fun join :: "'c list \<Rightarrow> 'c list list \<Rightarrow> 'c list" where
  "join sep [] = []"
| "join sep [x] = x"
| "join sep (x # y # ys) = x @ sep @ join sep (y # ys)"

text \<open>\<^verbatim>\<open>s.replaceAll(a, b)\<close> for one-character \<open>a\<close> and \<open>b\<close>.\<close>

definition replaceAll :: "char \<Rightarrow> char \<Rightarrow> string \<Rightarrow> string" where
  "replaceAll a b s = map (\<lambda>c. if c = a then b else c) s"

section \<open>utils.ts\<close>

text \<open>The separator class \<^verbatim>\<open>/[_-]/\<close> of \<^verbatim>\<open>fmtu\<close>.\<close>

definition is_sep :: "char \<Rightarrow> bool" where
  "is_sep c = (c = CHR ''_'' \<or> c = CHR ''-'')"

text \<open>The arrow function \<^verbatim>\<open>part => part.charAt(0).toUpperCase() + part.slice(1)\<close>.\<close>

definition capitalise :: "('c list \<Rightarrow> 'c list) \<Rightarrow> 'c list \<Rightarrow> 'c list" where
  "capitalise toUpperCase part = toUpperCase (charAt0 part) @ slice1 part"

text \<open>
  \<^verbatim>\<open>fmtu(input) = input.split(/[_-]/).map(part => ...).join('')\<close>, on code units of any
  type: \<open>sep\<close> holds of the code units that \<^verbatim>\<open>/[_-]/\<close> matches.
\<close>

definition fmtu_units :: "('c \<Rightarrow> bool) \<Rightarrow> ('c list \<Rightarrow> 'c list) \<Rightarrow> 'c list \<Rightarrow> 'c list" where
  "fmtu_units sep toUpperCase input = join [] (map (capitalise toUpperCase) (split_where sep input))"

text \<open>\<^verbatim>\<open>fmtu\<close> on the strings of a run.\<close>

definition fmtu :: "(string \<Rightarrow> string) \<Rightarrow> string \<Rightarrow> string" where
  "fmtu toUpperCase input = fmtu_units is_sep toUpperCase input"

section \<open>Node's \<^verbatim>\<open>path\<close> module on a POSIX host\<close>

text \<open>
  The generator calls \<^verbatim>\<open>path.join\<close>, \<^verbatim>\<open>path.resolve\<close>, \<^verbatim>\<open>path.relative\<close>,
  \<^verbatim>\<open>path.basename\<close> and \<^verbatim>\<open>path.extname\<close> of the Node runtime. They are modelled here as
  the runtime defines them for POSIX paths, where the only separator is \<open>/\<close>.
\<close>

definition is_slash :: "char \<Rightarrow> bool" where
  "is_slash c = (c = CHR ''/'')"

definition isAbsolute :: "string \<Rightarrow> bool" where
  "isAbsolute p = (case p of [] \<Rightarrow> False | c # _ \<Rightarrow> is_slash c)"

text \<open>
  The runtime's \<^verbatim>\<open>normalizeString\<close>, on the segments of a path: empty segments and \<open>.\<close>
  are skipped, \<open>..\<close> removes the segment before it; above the start it is kept only when
  \<open>allow\<close> is set (relative paths). \<open>acc\<close> holds the result so far, last segment first.
\<close>

fun normalize_segments :: "bool \<Rightarrow> string list \<Rightarrow> string list \<Rightarrow> string list" where
  "normalize_segments allow acc [] = rev acc"
| "normalize_segments allow acc (s # ss) =
     (if s = [] \<or> s = ''.'' then normalize_segments allow acc ss
      else if s = ''..'' then
        (case acc of
           [] \<Rightarrow> normalize_segments allow (if allow then [''..''] else []) ss
         | t # ts \<Rightarrow>
             if t = ''..'' then normalize_segments allow (if allow then ''..'' # acc else acc) ss
             else normalize_segments allow ts ss)
      else normalize_segments allow (s # acc) ss)"

definition normalizeString :: "string \<Rightarrow> bool \<Rightarrow> string" where
  "normalizeString p allow = join ''/'' (normalize_segments allow [] (split_where is_slash p))"

definition path_normalize :: "string \<Rightarrow> string" where
  "path_normalize p =
     (if p = [] then ''.''
      else
        let isAbs = isAbsolute p;
            trailingSeparator = is_slash (last p);
            q = normalizeString p (\<not> isAbs)
        in if q = [] then (if isAbs then ''/'' else if trailingSeparator then ''./'' else ''.'')
           else (if isAbs then ''/'' else []) @ q @ (if trailingSeparator then ''/'' else []))"

text \<open>\<^verbatim>\<open>path.join(...parts)\<close>: the non-empty parts joined by \<open>/\<close>, then normalised.\<close>

definition path_join :: "string list \<Rightarrow> string" where
  "path_join parts =
     (let joined = join ''/'' (filter (\<lambda>part. part \<noteq> []) parts)
      in if joined = [] then ''.'' else path_normalize joined)"

text \<open>
  \<^verbatim>\<open>path.resolve(...args)\<close>: the arguments are taken from the right, then the working
  directory, until the path built so far is absolute.
\<close>

fun resolve_from_right :: "string list \<Rightarrow> string \<Rightarrow> string" where
  "resolve_from_right [] resolved = resolved"
| "resolve_from_right (p # ps) resolved =
     (if p = [] then resolve_from_right ps resolved
      else if isAbsolute p then p @ ''/'' @ resolved
      else resolve_from_right ps (p @ ''/'' @ resolved))"

definition path_resolve :: "string \<Rightarrow> string list \<Rightarrow> string" where
  "path_resolve working_dir args =
     (let resolvedPath = resolve_from_right (rev args @ [working_dir]) [];
          resolvedAbsolute = isAbsolute resolvedPath;
          q = normalizeString resolvedPath (\<not> resolvedAbsolute)
      in if resolvedAbsolute then ''/'' @ q
         else if q \<noteq> [] then q else ''.'')"

text \<open>
  \<^verbatim>\<open>path.relative(from, to)\<close>: both paths are resolved; the segments they share from the
  root are dropped, each remaining segment of \<open>from\<close> becomes \<open>..\<close>, the remaining
  segments of \<open>to\<close> follow.
\<close>

fun drop_common :: "string list \<Rightarrow> string list \<Rightarrow> string list \<times> string list" where
  "drop_common (x # xs) (y # ys) = (if x = y then drop_common xs ys else (x # xs, y # ys))"
| "drop_common xs ys = (xs, ys)"

definition segments :: "string \<Rightarrow> string list" where
  "segments p = filter (\<lambda>s. s \<noteq> []) (split_where is_slash p)"

definition path_relative :: "string \<Rightarrow> string \<Rightarrow> string \<Rightarrow> string" where
  "path_relative working_dir from to =
     (if from = to then []
      else
        let f = path_resolve working_dir [from];
            t = path_resolve working_dir [to]
        in if f = t then []
           else (case drop_common (segments f) (segments t) of
                   (fs, ts) \<Rightarrow> join ''/'' (replicate (length fs) ''..'' @ ts)))"

text \<open>
  \<^verbatim>\<open>path.basename(p)\<close>: the last segment, trailing separators ignored.
\<close>

definition path_basename :: "string \<Rightarrow> string" where
  "path_basename p =
     rev (takeWhile (\<lambda>c. \<not> is_slash c) (dropWhile is_slash (rev p)))"

text \<open>
  \<^verbatim>\<open>path.extname(p)\<close>: from the last \<open>.\<close> of the last segment to its end; empty when
  there is no \<open>.\<close>, when the only \<open>.\<close> is the first character, and for \<open>..\<close>.
\<close>

definition path_extname :: "string \<Rightarrow> string" where
  "path_extname p =
     (let b = path_basename p;
          after_dot = takeWhile (\<lambda>c. c \<noteq> CHR ''.'') (rev b);
          startDot = length b - length after_dot - 1
      in if CHR ''.'' \<notin> set b then []
         else if startDot = 0 then []
         else if b = ''..'' then []
         else drop startDot b)"

text \<open>\<^verbatim>\<open>path.dirname(p)\<close> of a normalised absolute path.\<close>

definition path_dirname :: "string \<Rightarrow> string" where
  "path_dirname p =
     (let d = rev (drop 1 (dropWhile (\<lambda>c. \<not> is_slash c) (rev p)))
      in if d = [] then ''/'' else d)"

section \<open>The file system\<close>

datatype fs_node = Dir | File string

type_synonym filesystem = "string \<Rightarrow> fs_node option"

text \<open>
  \<open>Error msg\<close> is the \<^verbatim>\<open>throw new Error(msg)\<close> of the source; \<open>SystemError code path\<close>
  is what \<^verbatim>\<open>writeFileSync\<close> throws.
\<close>

datatype error = Error string | SystemError string string

definition existsSync :: "filesystem \<Rightarrow> string \<Rightarrow> bool" where
  "existsSync fs p = (fs p \<noteq> None)"

text \<open>
  \<^verbatim>\<open>writeFileSync(path, contents)\<close> creates the file or replaces its contents; it fails on
  a directory and when the directory of the file does not exist.
\<close>

definition writeFileSync :: "filesystem \<Rightarrow> string \<Rightarrow> string \<Rightarrow> error + filesystem" where
  "writeFileSync fs p contents =
     (if fs p = Some Dir then Inl (SystemError ''EISDIR'' p)
      else if fs (path_dirname p) \<noteq> Some Dir then Inl (SystemError ''ENOENT'' p)
      else Inr (fs(p \<mapsto> File contents)))"

definition fs_write :: "filesystem \<Rightarrow> string \<Rightarrow> string \<Rightarrow> error + filesystem" where
  "fs_write fs p contents = writeFileSync fs p contents"

definition paths_assert :: "filesystem \<Rightarrow> string list \<Rightarrow> error + string" where
  "paths_assert fs parts =
     (let path = path_join parts
      in if \<not> existsSync fs path then Inl (Error (''Path not found: '' @ path))
         else Inr path)"

definition paths :: "string list \<Rightarrow> string" where
  "paths parts = path_join parts"

section \<open>generate-package-exports/main.ts\<close>

record MainArgv =
  dir :: string
  out :: string
  is_module :: bool
  include_bin :: bool
  types_only :: bool
  dir_skip :: "string list"
  include_glob :: "string list"
  ignore_glob :: "string list"

text \<open>The defaults of the \<^verbatim>\<open>yargs\<close> options.\<close>

definition argv_default :: MainArgv where
  "argv_default =
     \<lparr> dir = ''src'', out = ''src'', is_module = True, include_bin = False, types_only = False,
       dir_skip = [],
       include_glob = [''**/*.{ts,svelte}''],
       ignore_glob = [''**/_*'', ''**/_*/**'', ''**/index.ts'', ''**/global.d.ts'', ''**/*.d.ts'',
                      ''**/node_modules/**'', ''**/.*/**'', ''**/dist/**'', ''**/build/**''] \<rparr>"

text \<open>
  What the run reads from its host: the working directory (\<^verbatim>\<open>process.cwd()\<close>), the file
  system, the matcher \<^verbatim>\<open>fast-glob\<close> (called with the include patterns, the \<^verbatim>\<open>cwd\<close>
  option and the \<^verbatim>\<open>ignore\<close> option; its other options are constants), the collation
  behind \<^verbatim>\<open>String.prototype.localeCompare\<close>, which depends on the locale of the host,
  and the case mapping behind \<^verbatim>\<open>String.prototype.toUpperCase\<close>. The matcher, the
  collation and the case mapping are not code of the generator: they are parameters.
\<close>

record host =
  cwd :: string
  files :: filesystem
  fg :: "string list \<Rightarrow> string \<Rightarrow> string list \<Rightarrow> string list"
  localeCompare :: "string \<Rightarrow> string \<Rightarrow> int"
  toUpperCase :: "string \<Rightarrow> string"

text \<open>\<^verbatim>\<open>const to_posix = (p) => p.replace(/\\/g, '/')\<close>\<close>

definition to_posix :: "string \<Rightarrow> string" where
  "to_posix p = replaceAll (CHR 0x5C) (CHR ''/'') p"

text \<open>Line 98: the include patterns.\<close>

definition build_include_glob :: "MainArgv \<Rightarrow> string list" where
  "build_include_glob argv = (if types_only argv then [''**/types.ts''] else include_glob argv)"

text \<open>Lines 108 to 115: the loop over \<^verbatim>\<open>argv.dir_skip\<close>, pushing onto \<^verbatim>\<open>ignore_glob\<close>.\<close>

fun push_dir_skip :: "string list \<Rightarrow> string list \<Rightarrow> string list" where
  "push_dir_skip ignore [] = ignore"
| "push_dir_skip ignore (d # ds) =
     push_dir_skip
       (if includes_char d (CHR ''*'') \<or> includes_char d (CHR ''?'') \<or> includes_char d (CHR ''['')
        then ignore @ [d]
        else ignore @ [''**/'' @ d @ ''/**''])
       ds"

text \<open>Lines 100 to 116: the ignore patterns.\<close>

definition build_ignore_glob :: "MainArgv \<Rightarrow> string list" where
  "build_ignore_glob argv =
     (let ignore0 = ignore_glob argv;
          ignore1 = (if \<not> include_bin argv then ignore0 @ [''**/bin/**''] else ignore0)
      in if length (dir_skip argv) \<noteq> 0 then push_dir_skip ignore1 (dir_skip argv) else ignore1)"

text \<open>
  \<^verbatim>\<open>filename.slice(0, -n)\<close>: all but the last \<open>n\<close> characters; for \<open>n = 0\<close> the end index
  is \<open>-0 = 0\<close> and the slice is empty.
\<close>

definition slice_0_neg :: "nat \<Rightarrow> string \<Rightarrow> string" where
  "slice_0_neg n s = (if n = 0 then [] else take (length s - n) s)"

text \<open>
  \<^verbatim>\<open>p.replace(/\.(ts|svelte)$/i, '')\<close>. Under the flag \<open>i\<close> of a regular expression
  without the flag \<open>u\<close>, a code unit outside ASCII never matches an ASCII letter, so the
  comparison is by the case table of ASCII.
\<close>

definition endsWith_ci :: "string \<Rightarrow> string \<Rightarrow> bool" where
  "endsWith_ci s suffix =
     (length suffix \<le> length s \<and> map ascii_lower (drop (length s - length suffix) s) = suffix)"

definition strip_ts_svelte :: "string \<Rightarrow> string" where
  "strip_ts_svelte p =
     (if endsWith_ci p ''.ts'' then take (length p - 3) p
      else if endsWith_ci p ''.svelte'' then take (length p - 7) p
      else p)"

text \<open>Lines 144 to 146: the prefix of the path relative to the output directory.\<close>

definition add_dot_slash :: "string \<Rightarrow> string" where
  "add_dot_slash rel_from_out =
     (if \<not> startsWith rel_from_out ''.'' \<and> \<not> startsWith rel_from_out ''/''
      then ''./'' @ rel_from_out
      else rel_from_out)"

text \<open>Lines 140 to 146: the import specifier of a matched file.\<close>

definition import_specifier :: "host \<Rightarrow> string \<Rightarrow> string \<Rightarrow> string \<Rightarrow> string" where
  "import_specifier h base_path out_path rel_file =
     (let abs_no_ext = strip_ts_svelte (path_resolve (cwd h) [base_path, rel_file])
      in add_dot_slash (to_posix (path_relative (cwd h) out_path abs_no_ext)))"

text \<open>
  Lines 132 to 155: the body of the loop over the matched files, as the line it pushes
  onto \<^verbatim>\<open>package_files\<close>, or \<open>None\<close> when it pushes nothing.
\<close>

definition export_line :: "host \<Rightarrow> MainArgv \<Rightarrow> string \<Rightarrow> string \<Rightarrow> string \<Rightarrow> string option" where
  "export_line h argv base_path out_path rel_file =
     (let filename = path_basename rel_file
      in if startsWith filename ''_'' then None
         else
           let ext = path_extname filename;
               filename_base = slice_0_neg (length ext) filename;
               rel_from_out = import_specifier h base_path out_path rel_file
           in if ext = ''.ts'' then
                Some (''export * from '' @ [CHR 0x22] @ rel_from_out
                        @ (if is_module argv then ''.js'' else []) @ [CHR 0x22])
              else if ext = ''.svelte'' then
                (let named = fmtu (toUpperCase h) (replaceAll (CHR ''-'') (CHR ''_'') filename_base)
                 in Some (''export { default as '' @ named @ '' } from '' @ [CHR 0x22]
                            @ rel_from_out @ [CHR 0x22]))
              else None)"

text \<open>Lines 129 to 156: the loop, with \<^verbatim>\<open>package_files\<close> as accumulator.\<close>

fun for_files :: "(string \<Rightarrow> string option) \<Rightarrow> string list \<Rightarrow> string list \<Rightarrow> string list" where
  "for_files body package_files [] = package_files"
| "for_files body package_files (rel_file # rest) =
     for_files body
       (case body rel_file of None \<Rightarrow> package_files | Some line \<Rightarrow> package_files @ [line])
       rest"

text \<open>
  \<^verbatim>\<open>Array.prototype.sort(compare)\<close>. The sort is stable; for a consistent comparator
  every stable sort gives the same array, here by insertion: an element goes before the
  first element of the sorted rest that does not precede it.
\<close>

fun insert_sorted :: "('a \<Rightarrow> 'a \<Rightarrow> int) \<Rightarrow> 'a \<Rightarrow> 'a list \<Rightarrow> 'a list" where
  "insert_sorted compare x [] = [x]"
| "insert_sorted compare x (y # ys) =
     (if compare x y \<le> 0 then x # y # ys else y # insert_sorted compare x ys)"

fun array_sort :: "('a \<Rightarrow> 'a \<Rightarrow> int) \<Rightarrow> 'a list \<Rightarrow> 'a list" where
  "array_sort compare [] = []"
| "array_sort compare (x # xs) = insert_sorted compare x (array_sort compare xs)"

text \<open>Line 163: the text written to the index file.\<close>

definition artifact :: "string list \<Rightarrow> string" where
  "artifact package_files =
     ''// Created by @radroots/dev generate-package-exports'' @ [CHR 0x0A, CHR 0x0A]
       @ join [CHR 0x0A] package_files @ [CHR 0x0A]"

text \<open>Lines 119 to 159: the matched files turned into lines, and the lines sorted.\<close>

definition collect_lines :: "host \<Rightarrow> MainArgv \<Rightarrow> string \<Rightarrow> string \<Rightarrow> string list" where
  "collect_lines h argv base_path out_path =
     for_files (export_line h argv base_path out_path) []
       (fg h (build_include_glob argv) base_path (build_ignore_glob argv))"

definition sorted_lines :: "host \<Rightarrow> MainArgv \<Rightarrow> string \<Rightarrow> string \<Rightarrow> string list" where
  "sorted_lines h argv base_path out_path =
     array_sort (localeCompare h) (collect_lines h argv base_path out_path)"

text \<open>
  \<^verbatim>\<open>main_gen_package_exports\<close>: the three \<^verbatim>\<open>paths_assert\<close> calls, each of which may
  throw, then the lines, then the write. The result is the error thrown or the file system
  after the write. The \<^verbatim>\<open>console.log\<close> calls are left out.
\<close>

definition main_gen_package_exports :: "host \<Rightarrow> MainArgv \<Rightarrow> error + filesystem" where
  "main_gen_package_exports h argv =
     (case paths_assert (files h) [cwd h, dir argv] of
        Inl e \<Rightarrow> Inl e
      | Inr base_path \<Rightarrow>
     (case paths_assert (files h) (cwd h # split_where is_slash (out argv)) of
        Inl e \<Rightarrow> Inl e
      | Inr out_path \<Rightarrow>
     (case paths_assert (files h) [out_path, ''index.ts''] of
        Inl e \<Rightarrow> Inl e
      | Inr export_path \<Rightarrow>
          fs_write (files h) export_path (artifact (sorted_lines h argv base_path out_path)))))"

text \<open>The paths the run computes.\<close>

definition base_path_of :: "host \<Rightarrow> MainArgv \<Rightarrow> string" where
  "base_path_of h argv = path_join [cwd h, dir argv]"

definition out_path_of :: "host \<Rightarrow> MainArgv \<Rightarrow> string" where
  "out_path_of h argv = path_join (cwd h # split_where is_slash (out argv))"

definition export_path_of :: "host \<Rightarrow> MainArgv \<Rightarrow> string" where
  "export_path_of h argv = path_join [out_path_of h argv, ''index.ts'']"

section \<open>Hosts and comparators for the examples\<close>

text \<open>A package at \<open>/w\<close> with a source directory and an index file.\<close>

definition package_tree :: filesystem where
  "package_tree = [''/w'' \<mapsto> Dir, ''/w/src'' \<mapsto> Dir, ''/w/src/index.ts'' \<mapsto> File []]"

text \<open>
  The comparison of two strings by code units, as \<^verbatim>\<open>a < b\<close> compares them: negative,
  zero or positive.
\<close>

fun codepoint_compare :: "string \<Rightarrow> string \<Rightarrow> int" where
  "codepoint_compare [] [] = 0"
| "codepoint_compare [] (d # ds) = - 1"
| "codepoint_compare (c # cs) [] = 1"
| "codepoint_compare (c # cs) (d # ds) =
     (if (of_char c :: nat) < of_char d then - 1
      else if (of_char d :: nat) < of_char c then 1
      else codepoint_compare cs ds)"

text \<open>
  A collation in the manner of the Unicode collation algorithm on letters: strings are first
  compared with the case of letters ignored; strings equal up to case are ordered with the
  lower-case letter first.
\<close>

definition collation_compare :: "string \<Rightarrow> string \<Rightarrow> int" where
  "collation_compare a b =
     (let primary = codepoint_compare (map ascii_lower a) (map ascii_lower b)
      in if primary \<noteq> 0 then primary else - codepoint_compare a b)"

text \<open>A matcher that returns a fixed list of files whatever the patterns.\<close>

definition fixed_matcher :: "string list \<Rightarrow> string list \<Rightarrow> string \<Rightarrow> string list \<Rightarrow> string list" where
  "fixed_matcher found patterns base ignore = found"

text \<open>
  The case mapping of the runtime on the code units the examples use: the letters of ASCII,
  \<open>0xE9\<close> (e with acute accent, to \<open>0xC9\<close>) and \<open>0xDF\<close> (sharp s, to \<open>SS\<close>).
\<close>

definition sample_upper :: "char \<Rightarrow> string" where
  "sample_upper c =
     (if c = CHR 0xDF then ''SS'' else if c = CHR 0xE9 then [CHR 0xC9] else [ascii_upper c])"

definition sample_toUpperCase :: "string \<Rightarrow> string" where
  "sample_toUpperCase s = concat (map sample_upper s)"

text \<open>
  The package above on a host with that collation and that case mapping, the matcher
  returning \<open>found\<close>.
\<close>

definition package_host :: "string list \<Rightarrow> host" where
  "package_host found =
     \<lparr> cwd = ''/w'', files = package_tree, fg = fixed_matcher found,
       localeCompare = collation_compare, toUpperCase = sample_toUpperCase \<rparr>"

section \<open>Predicates of the specification\<close>

text \<open>The basenames \<open>[a-zA-Z][a-zA-Z0-9_-]*\<close>.\<close>

definition name_pattern :: "string \<Rightarrow> bool" where
  "name_pattern s =
     (case s of
        [] \<Rightarrow> False
      | c # cs \<Rightarrow> is_alpha c \<and>
          list_all (\<lambda>d. is_alpha d \<or> is_digit d \<or> d = CHR ''_'' \<or> d = CHR ''-'') cs)"

text \<open>
  A case mapping that leaves the empty string empty and maps the letters and digits of
  ASCII as the case table of ASCII does, as the one of the runtime does.
\<close>

definition ascii_toUpperCase :: "(string \<Rightarrow> string) \<Rightarrow> bool" where
  "ascii_toUpperCase up =
     (up [] = [] \<and>
      list_all (\<lambda>c. up [c] = [ascii_upper c]) (lower_chars @ upper_chars @ digit_chars))"

text \<open>An ASCII identifier of the language: a letter, \<open>_\<close> or \<open>$\<close>, then letters, digits, \<open>_\<close>, \<open>$\<close>.\<close>

definition is_identifier :: "string \<Rightarrow> bool" where
  "is_identifier s =
     (case s of
        [] \<Rightarrow> False
      | c # cs \<Rightarrow> (is_alpha c \<or> c = CHR ''_'' \<or> c = CHR ''$'') \<and>
          list_all (\<lambda>d. is_alpha d \<or> is_digit d \<or> d = CHR ''_'' \<or> d = CHR ''$'') cs)"

text \<open>Lines in non-decreasing order of their code units.\<close>

definition codepoint_sorted :: "string list \<Rightarrow> bool" where
  "codepoint_sorted xs = sorted_wrt (\<lambda>a b. codepoint_compare a b \<le> 0) xs"

text \<open>
  What the matcher returns on a source directory holding \<open>types.ts\<close> and \<open>other.ts\<close>:
  for the pattern \<open>**/types.ts\<close> the first file only, for the default pattern both.
\<close>

definition types_scenario_matcher :: "string list \<Rightarrow> string \<Rightarrow> string list \<Rightarrow> string list" where
  "types_scenario_matcher patterns base ignore =
     (if patterns = [''**/types.ts''] then [''types.ts''] else [''other.ts'', ''types.ts''])"

text \<open>A package whose index file has not been created yet.\<close>

definition fresh_tree :: filesystem where
  "fresh_tree = [''/w'' \<mapsto> Dir, ''/w/src'' \<mapsto> Dir]"

text \<open>A package that keeps its sources in a directory whose name begins with a dot.\<close>

definition dot_tree :: filesystem where
  "dot_tree = [''/w'' \<mapsto> Dir, ''/w/.hidden'' \<mapsto> Dir, ''/w/index.ts'' \<mapsto> File []]"

section \<open>Characters and \<^verbatim>\<open>fmtu\<close>\<close>

lemmas chr_defs = ascii_upper_def ascii_lower_def is_lower_def is_upper_def is_digit_def
  is_alpha_def lower_chars_def upper_chars_def digit_chars_def

lemma ascii_upper_lower: "is_lower c \<Longrightarrow> is_upper (ascii_upper c)"
  by (auto simp: is_lower_def lower_chars_def) (simp_all add: chr_defs)

lemma ascii_upper_other: "\<not> is_lower c \<Longrightarrow> ascii_upper c = c"
  by (simp add: chr_defs)

lemma is_upper_not_lower: "is_upper c \<Longrightarrow> \<not> is_lower c"
  by (auto simp: is_upper_def upper_chars_def) (simp_all add: chr_defs)

lemma is_upper_not_sep: "is_upper c \<Longrightarrow> \<not> is_sep c"
  by (auto simp: is_upper_def upper_chars_def) (simp_all add: is_sep_def)

lemma ascii_upper_not_sep: "\<not> is_sep c \<Longrightarrow> \<not> is_sep (ascii_upper c)"
  by (cases "is_lower c")
     (simp_all add: ascii_upper_other ascii_upper_lower is_upper_not_sep)

lemma ascii_upper_alpha: "is_alpha c \<Longrightarrow> is_upper (ascii_upper c)"
  by (cases "is_lower c")
     (auto simp: is_alpha_def ascii_upper_other ascii_upper_lower)

lemma is_alpha_not_sep: "is_alpha c \<Longrightarrow> \<not> is_sep c"
  by (auto simp: is_alpha_def is_lower_def is_upper_def lower_chars_def upper_chars_def)
     (simp_all add: is_sep_def)

lemma is_digit_not_sep: "is_digit c \<Longrightarrow> \<not> is_sep c"
  by (auto simp: is_digit_def digit_chars_def) (simp_all add: is_sep_def)

lemma join_empty_concat: "join [] xs = concat xs"
  by (induction xs rule: induct_list012) simp_all

lemma split_where_not_Nil: "split_where P s \<noteq> []"
  by (induction s) (auto split: list.splits)

lemma split_where_all: "list_all (list_all (\<lambda>c. \<not> P c)) (split_where P s)"
  by (induction s) (auto split: list.splits)

lemma split_where_none: "(\<And>c. c \<in> set s \<Longrightarrow> \<not> P c) \<Longrightarrow> split_where P s = [s]"
  by (induction s) auto

lemma concat_split_where: "concat (split_where P s) = filter (\<lambda>c. \<not> P c) s"
  by (induction s) (auto split: list.splits)

lemma split_where_subset: "p \<in> set (split_where P s) \<Longrightarrow> set p \<subseteq> set s"
proof -
  assume "p \<in> set (split_where P s)"
  then have "set p \<subseteq> set (concat (split_where P s))" by auto
  then show ?thesis by (auto simp: concat_split_where)
qed

lemma capitalise_Nil: "capitalise up [] = up []"
  by (simp add: capitalise_def charAt0_def slice1_def)

lemma capitalise_Cons: "capitalise up (c # cs) = up [c] @ cs"
  by (simp add: capitalise_def charAt0_def slice1_def)

lemma fmtu_units_concat: "fmtu_units sep up s = concat (map (capitalise up) (split_where sep s))"
  by (simp add: fmtu_units_def join_empty_concat)

lemma fmtu_concat: "fmtu up s = concat (map (capitalise up) (split_where is_sep s))"
  by (simp add: fmtu_def fmtu_units_concat)

lemma capitalise_no_sep:
  assumes "up [] = []"
    and "\<forall>c d. \<not> sep c \<longrightarrow> d \<in> set (up [c]) \<longrightarrow> \<not> sep d"
    and "list_all (\<lambda>c. \<not> sep c) p"
  shows "list_all (\<lambda>c. \<not> sep c) (capitalise up p)"
  using assms by (cases p) (auto simp: capitalise_Nil capitalise_Cons list_all_iff)

lemma capitalise_concat:
  assumes empty: "up [] = []"
    and first: "\<forall>c. \<not> sep c \<longrightarrow> (\<exists>d ds. up [c] = d # ds \<and> up [d] = [d])"
    and parts: "list_all (list_all (\<lambda>c. \<not> sep c)) ps"
  shows "capitalise up (concat (map (capitalise up) ps)) = concat (map (capitalise up) ps)"
  using parts
proof (induction ps)
  case Nil
  show ?case by (simp add: capitalise_Nil empty)
next
  case (Cons p ps)
  show ?case
  proof (cases p)
    case Nil
    with Cons show ?thesis by (simp add: capitalise_Nil empty)
  next
    case (Cons c cs)
    with Cons.prems have "\<not> sep c" by simp
    with first obtain d ds where "up [c] = d # ds" and "up [d] = [d]" by blast
    with Cons show ?thesis by (simp add: capitalise_Cons)
  qed
qed

text \<open>
  C10: \<^verbatim>\<open>fmtu\<close> is idempotent, for every string of code units of any type, whenever the
  case mapping of the runtime has the three properties the claim relies on: the empty
  string stays empty; upper-casing a code unit other than a separator gives a string that
  is not empty and whose first code unit is left unchanged by upper-casing; and it gives
  no separator.
\<close>

theorem fmtu_idempotent:
  assumes empty: "up [] = []"
    and first: "\<forall>c. \<not> sep c \<longrightarrow> (\<exists>d ds. up [c] = d # ds \<and> up [d] = [d])"
    and nosep: "\<forall>c d. \<not> sep c \<longrightarrow> d \<in> set (up [c]) \<longrightarrow> \<not> sep d"
  shows "fmtu_units sep up (fmtu_units sep up s) = fmtu_units sep up s"
proof -
  have parts: "list_all (list_all (\<lambda>c. \<not> sep c)) (split_where sep s)"
    by (rule split_where_all)
  have "list_all (\<lambda>c. \<not> sep c) (capitalise up p)" if "p \<in> set (split_where sep s)" for p
  proof -
    from parts that have "list_all (\<lambda>c. \<not> sep c) p" by (simp add: list_all_iff)
    then show ?thesis by (rule capitalise_no_sep [OF empty nosep])
  qed
  then have "\<not> sep c" if "c \<in> set (fmtu_units sep up s)" for c
    using that by (auto simp: fmtu_units_concat list_all_iff)
  then have "split_where sep (fmtu_units sep up s) = [fmtu_units sep up s]"
    by (rule split_where_none)
  then have "fmtu_units sep up (fmtu_units sep up s) = capitalise up (fmtu_units sep up s)"
    by (simp add: fmtu_units_concat)
  also have "\<dots> = fmtu_units sep up s"
    unfolding fmtu_units_concat by (rule capitalise_concat [OF empty first parts])
  finally show ?thesis .
qed

lemmas fmtu_eval = fmtu_def fmtu_units_def capitalise_def charAt0_def slice1_def is_sep_def
  replaceAll_def sample_toUpperCase_def sample_upper_def chr_defs

lemma sample_toUpperCase_single: "sample_toUpperCase [c] = sample_upper c"
  by (simp add: sample_toUpperCase_def)

lemma sample_upper_first:
  "\<not> is_sep c \<Longrightarrow> \<exists>d ds. sample_upper c = d # ds \<and> sample_upper d = [d]"
proof (cases "is_lower c")
  case True
  then have u: "is_upper (ascii_upper c)" by (rule ascii_upper_lower)
  then have "\<not> is_lower (ascii_upper c)" by (rule is_upper_not_lower)
  then have "ascii_upper (ascii_upper c) = ascii_upper c" by (rule ascii_upper_other)
  moreover have "ascii_upper c \<noteq> CHR 0xDF" "ascii_upper c \<noteq> CHR 0xE9"
    using u by (auto simp: is_upper_def upper_chars_def)
  moreover have "c \<noteq> CHR 0xDF" "c \<noteq> CHR 0xE9"
    using True by (auto simp: is_lower_def lower_chars_def)
  ultimately show ?thesis by (simp add: sample_upper_def)
next
  case False
  then have "ascii_upper c = c" by (rule ascii_upper_other)
  then show ?thesis by (simp add: sample_upper_def chr_defs)
qed

lemma sample_upper_no_sep: "\<not> is_sep c \<Longrightarrow> d \<in> set (sample_upper c) \<Longrightarrow> \<not> is_sep d"
  using ascii_upper_not_sep [of c]
  by (auto simp: sample_upper_def is_sep_def split: if_splits)

theorem fmtu_idempotent_witness:
  "fmtu sample_toUpperCase [CHR 0xDF, CHR ''a'', CHR ''_'', CHR 0xE9, CHR ''-'', CHR ''x'']
     = [CHR ''S'', CHR ''S'', CHR ''a'', CHR 0xC9, CHR ''X'']
   \<and> fmtu sample_toUpperCase
        (fmtu sample_toUpperCase [CHR 0xDF, CHR ''a'', CHR ''_'', CHR 0xE9, CHR ''-'', CHR ''x''])
     = fmtu sample_toUpperCase [CHR 0xDF, CHR ''a'', CHR ''_'', CHR 0xE9, CHR ''-'', CHR ''x'']"
proof -
  have empty: "sample_toUpperCase [] = []"
    by (simp add: sample_toUpperCase_def)
  have first: "\<forall>c. \<not> is_sep c \<longrightarrow>
      (\<exists>d ds. sample_toUpperCase [c] = d # ds \<and> sample_toUpperCase [d] = [d])"
    unfolding sample_toUpperCase_single by (intro allI impI) (rule sample_upper_first)
  have nosep: "\<forall>c d. \<not> is_sep c \<longrightarrow> d \<in> set (sample_toUpperCase [c]) \<longrightarrow> \<not> is_sep d"
    unfolding sample_toUpperCase_single by (intro allI impI) (rule sample_upper_no_sep)
  have val: "fmtu sample_toUpperCase [CHR 0xDF, CHR ''a'', CHR ''_'', CHR 0xE9, CHR ''-'', CHR ''x'']
     = [CHR ''S'', CHR ''S'', CHR ''a'', CHR 0xC9, CHR ''X'']"
    by (simp add: fmtu_eval)
  have idem: "fmtu sample_toUpperCase
        (fmtu sample_toUpperCase [CHR 0xDF, CHR ''a'', CHR ''_'', CHR 0xE9, CHR ''-'', CHR ''x''])
     = fmtu sample_toUpperCase [CHR 0xDF, CHR ''a'', CHR ''_'', CHR 0xE9, CHR ''-'', CHR ''x'']"
    unfolding fmtu_def by (rule fmtu_idempotent [OF empty first nosep])
  show ?thesis by (rule conjI [OF val idem])
qed

lemma ascii_toUpperCase_alnum:
  "ascii_toUpperCase up \<Longrightarrow> is_alpha c \<or> is_digit c \<Longrightarrow> up [c] = [ascii_upper c]"
  by (auto simp: ascii_toUpperCase_def list_all_iff is_alpha_def is_lower_def is_upper_def
        is_digit_def)

lemma is_digit_not_lower: "is_digit c \<Longrightarrow> \<not> is_lower c"
  by (auto simp: is_digit_def digit_chars_def) (simp_all add: chr_defs)

lemma split_where_replaceAll:
  "split_where is_sep (replaceAll (CHR ''-'') (CHR ''_'') s) = split_where is_sep s"
  by (induction s) (auto simp: replaceAll_def is_sep_def split: list.splits)

lemma fmtu_replaceAll: "fmtu up (replaceAll (CHR ''-'') (CHR ''_'') s) = fmtu up s"
  by (simp add: fmtu_concat split_where_replaceAll)

lemma split_where_Cons_not_sep:
  "\<not> P c \<Longrightarrow> \<exists>w ws. split_where P (c # cs) = (c # w) # ws"
  using split_where_not_Nil [of P cs] by (cases "split_where P cs") auto

lemma fmtu_head:
  "\<not> is_sep c \<Longrightarrow> \<exists>rest. fmtu up (c # cs) = up [c] @ rest"
proof -
  assume "\<not> is_sep c"
  then have "\<exists>w ws. split_where is_sep (c # cs) = (c # w) # ws"
    by (rule split_where_Cons_not_sep)
  then obtain w ws where "split_where is_sep (c # cs) = (c # w) # ws"
    by (elim exE)
  then have "fmtu up (c # cs) = up [c] @ (w @ concat (map (capitalise up) ws))"
    by (simp only: fmtu_concat list.map concat.simps capitalise_Cons append_assoc)
  then show ?thesis by (rule exI)
qed

lemma name_pattern_chars:
  "name_pattern base \<Longrightarrow> d \<in> set base \<Longrightarrow> is_alpha d \<or> is_digit d \<or> is_sep d"
  by (auto simp: name_pattern_def is_sep_def list_all_iff split: list.splits)

lemma fmtu_name_no_sep:
  assumes up: "ascii_toUpperCase up" and np: "name_pattern base" and x: "x \<in> set (fmtu up base)"
  shows "\<not> is_sep x"
proof -
  from x obtain p where p: "p \<in> set (split_where is_sep base)" and xp: "x \<in> set (capitalise up p)"
    by (auto simp: fmtu_concat)
  have nosep: "\<not> is_sep d" if "d \<in> set p" for d
    using split_where_all [of is_sep base] p that by (auto simp: list_all_iff)
  have alnum: "is_alpha d \<or> is_digit d" if "d \<in> set p" for d
    using name_pattern_chars [OF np, of d] split_where_subset [OF p] nosep [OF that] that by blast
  show ?thesis
  proof (cases p)
    case Nil
    moreover from up have "up [] = []" by (simp add: ascii_toUpperCase_def)
    ultimately show ?thesis using xp by (simp add: capitalise_Nil)
  next
    case (Cons c cs)
    then have "up [c] = [ascii_upper c]"
      using alnum [of c] up by (simp add: ascii_toUpperCase_alnum)
    with xp Cons have "x = ascii_upper c \<or> x \<in> set cs"
      by (simp add: capitalise_Cons)
    then show ?thesis
      using nosep Cons ascii_upper_not_sep [of c] by auto
  qed
qed

text \<open>
  C5: for a component-module basename matching \<open>[a-zA-Z][a-zA-Z0-9_-]*\<close>, and a runtime
  whose case mapping is that of ASCII on the letters and digits of ASCII, the exported name
  (line 153) contains neither \<open>-\<close> nor \<open>_\<close> and begins with an upper-case letter; it is
  the concatenation of the capitalised pieces of the basename between \<open>-\<close> and \<open>_\<close>
  (\<open>user-card\<close> gives \<open>UserCard\<close>).
\<close>

theorem exported_name_shape:
  assumes "ascii_toUpperCase up" and "name_pattern base"
  shows "CHR ''-'' \<notin> set (fmtu up (replaceAll (CHR ''-'') (CHR ''_'') base))
       \<and> CHR ''_'' \<notin> set (fmtu up (replaceAll (CHR ''-'') (CHR ''_'') base))
       \<and> (\<exists>c rest. fmtu up (replaceAll (CHR ''-'') (CHR ''_'') base) = c # rest \<and> is_upper c)
       \<and> fmtu up (replaceAll (CHR ''-'') (CHR ''_'') base)
           = concat (map (capitalise up) (split_where is_sep base))"
proof -
  from assms(2) obtain c cs where base: "base = c # cs" and c: "is_alpha c"
    by (auto simp: name_pattern_def split: list.splits)
  from c have "\<not> is_sep c" by (rule is_alpha_not_sep)
  then have "\<exists>rest. fmtu up (c # cs) = up [c] @ rest" by (rule fmtu_head)
  moreover have "up [c] = [ascii_upper c]"
    using assms(1) c by (simp add: ascii_toUpperCase_alnum)
  ultimately obtain rest where "fmtu up base = ascii_upper c # rest"
    unfolding base by auto
  moreover have "is_upper (ascii_upper c)" using c by (rule ascii_upper_alpha)
  moreover have "CHR ''-'' \<notin> set (fmtu up base)" "CHR ''_'' \<notin> set (fmtu up base)"
    using fmtu_name_no_sep [OF assms, of "CHR ''-''"] fmtu_name_no_sep [OF assms, of "CHR ''_''"]
    by (auto simp: is_sep_def)
  ultimately show ?thesis
    by (simp add: fmtu_replaceAll) (simp add: fmtu_concat)
qed

lemma sample_toUpperCase_ascii: "ascii_toUpperCase sample_toUpperCase"
  by (simp add: ascii_toUpperCase_def sample_toUpperCase_def sample_upper_def chr_defs)

theorem exported_name_shape_witness:
  "ascii_toUpperCase sample_toUpperCase
   \<and> name_pattern ''user-card''
   \<and> fmtu sample_toUpperCase (replaceAll (CHR ''-'') (CHR ''_'') ''user-card'') = ''UserCard''
   \<and> CHR ''-'' \<notin> set (fmtu sample_toUpperCase (replaceAll (CHR ''-'') (CHR ''_'') ''user-card''))
   \<and> CHR ''_'' \<notin> set (fmtu sample_toUpperCase (replaceAll (CHR ''-'') (CHR ''_'') ''user-card''))
   \<and> is_upper (CHR ''U'')"
proof -
  have np: "name_pattern ''user-card''"
    by (simp add: name_pattern_def chr_defs)
  have name: "fmtu sample_toUpperCase (replaceAll (CHR ''-'') (CHR ''_'') ''user-card'') = ''UserCard''"
    by (simp add: fmtu_eval)
  have u: "is_upper (CHR ''U'')"
    by (simp add: chr_defs)
  note inst = exported_name_shape [OF sample_toUpperCase_ascii np]
  show ?thesis
    by (rule conjI [OF sample_toUpperCase_ascii conjI [OF np conjI [OF name
          conjI [OF inst [THEN conjunct1] conjI [OF inst [THEN conjunct2, THEN conjunct1] u]]]]])
qed

lemma push_dir_skip_append:
  "push_dir_skip ignore ds =
     ignore @ map (\<lambda>d. if includes_char d (CHR ''*'') \<or> includes_char d (CHR ''?'')
                           \<or> includes_char d (CHR ''['')
                        then d else ''**/'' @ d @ ''/**'') ds"
  by (induction ds arbitrary: ignore) simp_all

text \<open>
  C8: the ignore patterns handed to the matcher are the configured ones, then \<open>**/bin/**\<close>
  exactly when \<open>include_bin\<close> is false, then one entry for each element of \<open>dir_skip\<close>:
  the element itself if it contains \<open>*\<close>, \<open>?\<close> or \<open>[\<close>, otherwise \<open>**/<element>/**\<close>.
\<close>

theorem effective_ignore_glob:
  "build_ignore_glob argv =
     ignore_glob argv
     @ (if include_bin argv then [] else [''**/bin/**''])
     @ map (\<lambda>d. if includes_char d (CHR ''*'') \<or> includes_char d (CHR ''?'')
                    \<or> includes_char d (CHR ''['')
                 then d else ''**/'' @ d @ ''/**'') (dir_skip argv)
   \<and> collect_lines h argv base_path out_path =
       for_files (export_line h argv base_path out_path) []
         (fg h (build_include_glob argv) base_path (build_ignore_glob argv))"
  by (simp add: build_ignore_glob_def Let_def push_dir_skip_append collect_lines_def)

theorem effective_ignore_glob_witness:
  "build_ignore_glob (argv_default \<lparr> ignore_glob := [''**/_*''], dir_skip := [''legacy'', ''gen*''] \<rparr>)
     = [''**/_*'', ''**/bin/**'', ''**/legacy/**'', ''gen*'']
   \<and> build_ignore_glob (argv_default \<lparr> ignore_glob := [''**/_*''], include_bin := True \<rparr>)
     = [''**/_*'']"
  using effective_ignore_glob [of "argv_default \<lparr> ignore_glob := [''**/_*''], dir_skip := [''legacy'', ''gen*''] \<rparr>"]
        effective_ignore_glob [of "argv_default \<lparr> ignore_glob := [''**/_*''], include_bin := True \<rparr>"]
  by (simp add: argv_default_def includes_char_def)

section \<open>The run\<close>

text \<open>The definitions unfolded to evaluate a run on a concrete host.\<close>

lemmas path_eval = is_slash_def isAbsolute_def normalizeString_def path_normalize_def
  path_join_def path_resolve_def segments_def path_relative_def path_basename_def
  path_extname_def path_dirname_def

lemmas fs_eval = existsSync_def writeFileSync_def fs_write_def paths_assert_def
  package_tree_def fresh_tree_def dot_tree_def

lemmas main_eval = main_gen_package_exports_def sorted_lines_def collect_lines_def
  export_line_def import_specifier_def add_dot_slash_def strip_ts_svelte_def endsWith_ci_def
  slice_0_neg_def to_posix_def build_include_glob_def build_ignore_glob_def startsWith_def
  includes_char_def argv_default_def package_host_def fixed_matcher_def
  types_scenario_matcher_def collation_compare_def Let_def

lemma for_files_map_filter: "for_files body acc fls = acc @ List.map_filter body fls"
  by (induction fls arbitrary: acc) (simp_all add: List.map_filter_simps split: option.splits)

lemma map_filter_drop_None:
  "\<forall>f. \<not> keep f \<longrightarrow> body f = None
   \<Longrightarrow> List.map_filter body (filter keep fls) = List.map_filter body fls"
  by (induction fls) (auto simp: List.map_filter_simps split: option.splits)

lemma export_line_underscore:
  "startsWith (path_basename rel_file) ''_'' \<Longrightarrow> export_line h argv base_path out_path rel_file = None"
  by (simp add: export_line_def Let_def)

lemma import_specifier_fg:
  "import_specifier (h\<lparr>fg := g\<rparr>) base_path out_path rel_file
     = import_specifier h base_path out_path rel_file"
  by (simp add: import_specifier_def)

lemma export_line_fg:
  "export_line (h\<lparr>fg := g\<rparr>) argv base_path out_path = export_line h argv base_path out_path"
  by (rule ext) (simp add: export_line_def import_specifier_fg Let_def)

lemma main_success:
  assumes "main_gen_package_exports h argv = Inr fs'"
  shows "fs' = (files h)(export_path_of h argv \<mapsto>
           File (artifact (sorted_lines h argv (base_path_of h argv) (out_path_of h argv))))"
  using assms
  by (auto simp: main_gen_package_exports_def paths_assert_def Let_def fs_write_def
        writeFileSync_def base_path_of_def out_path_of_def export_path_of_def
      split: if_splits)

lemma main_cong:
  assumes "cwd h' = cwd h" and "files h' = files h"
    and "\<And>b out. sorted_lines h' argv' b out = sorted_lines h argv b out"
    and "dir argv' = dir argv" and "out argv' = out argv"
  shows "main_gen_package_exports h' argv' = main_gen_package_exports h argv"
  using assms by (simp add: main_gen_package_exports_def split: sum.splits)

text \<open>
  C6: a matched file whose name (last segment of its path) begins with an underscore
  produces no line, whatever the ignore patterns are: the lines collected, and the whole
  run, are the same as if the matcher had not returned such files.
\<close>

theorem underscore_files_dropped:
  "(startsWith (path_basename rel_file) ''_''
      \<longrightarrow> export_line h argv base_path out_path rel_file = None)
   \<and> collect_lines h argv base_path out_path =
       for_files (export_line h argv base_path out_path) []
         (filter (\<lambda>f. \<not> startsWith (path_basename f) ''_'')
            (fg h (build_include_glob argv) base_path (build_ignore_glob argv)))
   \<and> main_gen_package_exports h argv =
       main_gen_package_exports
         (h\<lparr>fg := \<lambda>patterns base ignore.
                 filter (\<lambda>f. \<not> startsWith (path_basename f) ''_'') (fg h patterns base ignore)\<rparr>)
         argv"
proof -
  have drop: "for_files (export_line h argv b out) [] (filter (\<lambda>f. \<not> startsWith (path_basename f) ''_'') fls)
      = for_files (export_line h argv b out) [] fls" for b out fls
    by (simp add: for_files_map_filter map_filter_drop_None export_line_underscore)
  have "collect_lines (h\<lparr>fg := \<lambda>patterns base ignore.
                 filter (\<lambda>f. \<not> startsWith (path_basename f) ''_'') (fg h patterns base ignore)\<rparr>)
          argv b out = collect_lines h argv b out" for b out
    by (simp add: collect_lines_def drop export_line_fg)
  then have "main_gen_package_exports (h\<lparr>fg := \<lambda>patterns base ignore.
                 filter (\<lambda>f. \<not> startsWith (path_basename f) ''_'') (fg h patterns base ignore)\<rparr>)
          argv = main_gen_package_exports h argv"
    by (intro main_cong) (simp_all add: sorted_lines_def)
  then show ?thesis
    by (simp add: export_line_underscore collect_lines_def drop)
qed

theorem underscore_files_dropped_witness:
  "startsWith (path_basename ''lib/_b.ts'') ''_''
   \<and> export_line (package_host [''a.ts'', ''lib/_b.ts'']) (argv_default\<lparr>ignore_glob := []\<rparr>)
         ''/w/src'' ''/w/src'' ''lib/_b.ts'' = None
   \<and> collect_lines (package_host [''a.ts'', ''lib/_b.ts'']) (argv_default\<lparr>ignore_glob := []\<rparr>)
         ''/w/src'' ''/w/src'' = [''export * from '' @ [CHR 0x22] @ ''./a.js'' @ [CHR 0x22]]"
proof -
  let ?h = "package_host [''a.ts'', ''lib/_b.ts'']"
  let ?argv = "argv_default\<lparr>ignore_glob := []\<rparr>"
  have u: "startsWith (path_basename ''lib/_b.ts'') ''_''"
    by (simp add: startsWith_def path_eval)
  have kept: "for_files (export_line ?h ?argv ''/w/src'' ''/w/src'') []
         (filter (\<lambda>f. \<not> startsWith (path_basename f) ''_'')
            (fg ?h (build_include_glob ?argv) ''/w/src'' (build_ignore_glob ?argv)))
       = [''export * from '' @ [CHR 0x22] @ ''./a.js'' @ [CHR 0x22]]"
    by (simp add: main_eval path_eval fmtu_eval)
  note inst = underscore_files_dropped [of "''lib/_b.ts''" ?h ?argv "''/w/src''" "''/w/src''"]
  have none: "export_line ?h ?argv ''/w/src'' ''/w/src'' ''lib/_b.ts'' = None"
    by (rule inst [THEN conjunct1, THEN mp, OF u])
  have "collect_lines ?h ?argv ''/w/src'' ''/w/src''
      = for_files (export_line ?h ?argv ''/w/src'' ''/w/src'') []
         (filter (\<lambda>f. \<not> startsWith (path_basename f) ''_'')
            (fg ?h (build_include_glob ?argv) ''/w/src'' (build_ignore_glob ?argv)))"
    by (rule inst [THEN conjunct2, THEN conjunct1])
  then have lines: "collect_lines ?h ?argv ''/w/src'' ''/w/src''
      = [''export * from '' @ [CHR 0x22] @ ''./a.js'' @ [CHR 0x22]]"
    by (rule trans) (rule kept)
  show ?thesis by (rule conjI [OF u conjI [OF none lines]])
qed

lemma build_ignore_glob_include [simp]:
  "build_ignore_glob (argv\<lparr>include_glob := g\<rparr>) = build_ignore_glob argv"
  by (simp add: build_ignore_glob_def Let_def)

lemma export_line_include:
  "export_line h (argv\<lparr>include_glob := g\<rparr>) base_path out_path = export_line h argv base_path out_path"
  by (rule ext) (simp add: export_line_def Let_def)

text \<open>
  C7: with \<open>types_only\<close> set, the include patterns handed to the matcher are exactly
  \<open>**/types.ts\<close>, and the configured \<open>include_glob\<close> has no effect on the run. On a
  source directory with \<open>types.ts\<close> and \<open>other.ts\<close> the index then holds the export of
  \<open>types.ts\<close> only.
\<close>

theorem types_only_include:
  assumes "types_only argv"
  shows "build_include_glob argv = [''**/types.ts'']
       \<and> collect_lines h argv base_path out_path =
           for_files (export_line h argv base_path out_path) []
             (fg h [''**/types.ts''] base_path (build_ignore_glob argv))
       \<and> main_gen_package_exports h (argv\<lparr>include_glob := g\<rparr>) = main_gen_package_exports h argv"
proof -
  have inc: "build_include_glob (argv\<lparr>include_glob := g\<rparr>) = build_include_glob argv"
    using assms by (simp add: build_include_glob_def)
  have "main_gen_package_exports h (argv\<lparr>include_glob := g\<rparr>) = main_gen_package_exports h argv"
    by (intro main_cong) (simp_all add: sorted_lines_def collect_lines_def inc export_line_include)
  with assms show ?thesis
    by (simp add: build_include_glob_def collect_lines_def)
qed

theorem types_only_include_witness:
  "types_only (argv_default\<lparr>types_only := True\<rparr>)
   \<and> build_include_glob (argv_default\<lparr>types_only := True\<rparr>) = [''**/types.ts'']
   \<and> main_gen_package_exports
        \<lparr>cwd = ''/w'', files = package_tree, fg = types_scenario_matcher,
         localeCompare = collation_compare,
         toUpperCase = sample_toUpperCase\<rparr>
        (argv_default\<lparr>types_only := True\<rparr>\<lparr>include_glob := [''**/*.ts'']\<rparr>)
     = Inr (package_tree(''/w/src/index.ts'' \<mapsto>
         File (artifact [''export * from '' @ [CHR 0x22] @ ''./types.js'' @ [CHR 0x22]])))"
proof -
  let ?h = "\<lparr>cwd = ''/w'', files = package_tree, fg = types_scenario_matcher,
         localeCompare = collation_compare,
         toUpperCase = sample_toUpperCase\<rparr>"
  let ?argv = "argv_default\<lparr>types_only := True\<rparr>"
  have t: "types_only ?argv" by simp
  have run: "main_gen_package_exports ?h ?argv
     = Inr (package_tree(''/w/src/index.ts'' \<mapsto>
         File (artifact [''export * from '' @ [CHR 0x22] @ ''./types.js'' @ [CHR 0x22]])))"
    by (simp add: main_eval path_eval fmtu_eval fs_eval)
  note inst = types_only_include [OF t, where h = ?h and g = "[''**/*.ts'']"]
  have inc: "build_include_glob ?argv = [''**/types.ts'']"
    by (rule inst [THEN conjunct1])
  have "main_gen_package_exports ?h (?argv\<lparr>include_glob := [''**/*.ts'']\<rparr>)
      = main_gen_package_exports ?h ?argv"
    by (rule inst [THEN conjunct2, THEN conjunct2])
  then have same: "main_gen_package_exports ?h (?argv\<lparr>include_glob := [''**/*.ts'']\<rparr>)
     = Inr (package_tree(''/w/src/index.ts'' \<mapsto>
         File (artifact [''export * from '' @ [CHR 0x22] @ ''./types.js'' @ [CHR 0x22]])))"
    by (rule trans) (rule run)
  show ?thesis by (rule conjI [OF t conjI [OF inc same]])
qed

text \<open>
  C9: a file with extension \<open>.ts\<close> gives the line \<open>export * from "<specifier><suffix>"\<close>
  where the suffix is \<open>.js\<close> when \<open>is_module\<close> is set and empty otherwise; a file with
  extension \<open>.svelte\<close> gives \<open>export { default as <name> } from "<specifier>"\<close>, with
  no suffix whatever \<open>is_module\<close> is.
\<close>

theorem export_line_forms:
  assumes "\<not> startsWith (path_basename rel_file) ''_''"
  shows "(path_extname (path_basename rel_file) = ''.ts'' \<longrightarrow>
           export_line h argv base_path out_path rel_file =
             Some (''export * from '' @ [CHR 0x22]
                     @ import_specifier h base_path out_path rel_file
                     @ (if is_module argv then ''.js'' else []) @ [CHR 0x22]))
       \<and> (path_extname (path_basename rel_file) = ''.svelte'' \<longrightarrow>
           export_line h argv base_path out_path rel_file =
             Some (''export { default as ''
                     @ fmtu (toUpperCase h) (replaceAll (CHR ''-'') (CHR ''_'')
                              (slice_0_neg (length ''.svelte'') (path_basename rel_file)))
                     @ '' } from '' @ [CHR 0x22]
                     @ import_specifier h base_path out_path rel_file @ [CHR 0x22])
           \<and> export_line h (argv\<lparr>is_module := m\<rparr>) base_path out_path rel_file =
               export_line h argv base_path out_path rel_file)"
  using assms by (simp add: export_line_def Let_def)

theorem export_line_forms_witness:
  "\<not> startsWith (path_basename ''lib/a.ts'') ''_''
   \<and> path_extname (path_basename ''lib/a.ts'') = ''.ts''
   \<and> export_line (package_host []) argv_default ''/w/src'' ''/w/src'' ''lib/a.ts''
       = Some (''export * from '' @ [CHR 0x22] @ ''./lib/a.js'' @ [CHR 0x22])
   \<and> export_line (package_host []) (argv_default\<lparr>is_module := False\<rparr>) ''/w/src'' ''/w/src'' ''lib/a.ts''
       = Some (''export * from '' @ [CHR 0x22] @ ''./lib/a'' @ [CHR 0x22])
   \<and> \<not> startsWith (path_basename ''user-card.svelte'') ''_''
   \<and> path_extname (path_basename ''user-card.svelte'') = ''.svelte''
   \<and> export_line (package_host []) argv_default ''/w/src'' ''/w/src'' ''user-card.svelte''
       = Some (''export { default as UserCard } from '' @ [CHR 0x22] @ ''./user-card'' @ [CHR 0x22])"
proof -
  let ?h = "package_host []"
  have u: "\<not> startsWith (path_basename ''lib/a.ts'') ''_''"
    by (simp add: startsWith_def path_eval)
  have e: "path_extname (path_basename ''lib/a.ts'') = ''.ts''"
    by (simp add: path_eval)
  have s: "import_specifier ?h ''/w/src'' ''/w/src'' ''lib/a.ts'' = ''./lib/a''"
    by (simp add: main_eval path_eval fmtu_eval)
  have m: "is_module argv_default" "\<not> is_module (argv_default\<lparr>is_module := False\<rparr>)"
    by (simp_all add: argv_default_def)
  have 1: "export_line ?h argv_default ''/w/src'' ''/w/src'' ''lib/a.ts''
       = Some (''export * from '' @ [CHR 0x22] @ ''./lib/a.js'' @ [CHR 0x22])"
    using export_line_forms [OF u, where h = ?h and argv = argv_default
            and base_path = "''/w/src''" and out_path = "''/w/src''",
            THEN conjunct1, THEN mp, OF e]
    by (simp only: s m if_True append.simps)
  have 2: "export_line ?h (argv_default\<lparr>is_module := False\<rparr>) ''/w/src'' ''/w/src'' ''lib/a.ts''
       = Some (''export * from '' @ [CHR 0x22] @ ''./lib/a'' @ [CHR 0x22])"
    using export_line_forms [OF u, where h = ?h and argv = "argv_default\<lparr>is_module := False\<rparr>"
            and base_path = "''/w/src''" and out_path = "''/w/src''",
            THEN conjunct1, THEN mp, OF e]
    by (simp only: s m if_False append.simps)
  have u': "\<not> startsWith (path_basename ''user-card.svelte'') ''_''"
    by (simp add: startsWith_def path_eval)
  have e': "path_extname (path_basename ''user-card.svelte'') = ''.svelte''"
    by (simp add: path_eval)
  have s': "import_specifier ?h ''/w/src'' ''/w/src'' ''user-card.svelte'' = ''./user-card''"
    by (simp add: main_eval path_eval fmtu_eval)
  have n': "fmtu (toUpperCase ?h) (replaceAll (CHR ''-'') (CHR ''_'')
              (slice_0_neg (length ''.svelte'') (path_basename ''user-card.svelte''))) = ''UserCard''"
    by (simp add: slice_0_neg_def path_eval fmtu_eval package_host_def)
  have 3: "export_line ?h argv_default ''/w/src'' ''/w/src'' ''user-card.svelte''
       = Some (''export { default as UserCard } from '' @ [CHR 0x22] @ ''./user-card'' @ [CHR 0x22])"
    using export_line_forms [OF u', where h = ?h and argv = argv_default
            and base_path = "''/w/src''" and out_path = "''/w/src''",
            THEN conjunct2, THEN mp, OF e', THEN conjunct1]
    by (simp only: s' n' append.simps)
  show ?thesis
    by (rule conjI [OF u conjI [OF e conjI [OF 1 conjI [OF 2 conjI [OF u' conjI [OF e' 3]]]]]])
qed

lemma set_insert_sorted: "set (insert_sorted compare x xs) = insert x (set xs)"
  by (induction xs) auto

lemma mset_insert_sorted: "mset (insert_sorted compare x xs) = add_mset x (mset xs)"
  by (induction xs) auto

lemma mset_array_sort: "mset (array_sort compare xs) = mset xs"
  by (induction xs) (simp_all add: mset_insert_sorted)

lemma sorted_insert_sorted:
  assumes total: "\<forall>a b. compare a b \<le> 0 \<or> compare b a \<le> 0"
    and trans: "\<forall>a b c. compare a b \<le> 0 \<longrightarrow> compare b c \<le> 0 \<longrightarrow> compare a c \<le> 0"
    and sorted: "sorted_wrt (\<lambda>a b. compare a b \<le> 0) xs"
  shows "sorted_wrt (\<lambda>a b. compare a b \<le> 0) (insert_sorted compare x xs)"
  using sorted
proof (induction xs)
  case Nil
  show ?case by simp
next
  case (Cons y ys)
  show ?case
  proof (cases "compare x y \<le> 0")
    case True
    have "compare x z \<le> 0" if "z \<in> set ys" for z
      using that True Cons.prems trans by (auto simp: )
    with True Cons.prems show ?thesis by auto
  next
    case False
    with total have "compare y x \<le> 0" by blast
    with False Cons show ?thesis by (auto simp: set_insert_sorted)
  qed
qed

lemma sorted_array_sort:
  assumes "\<forall>a b. compare a b \<le> 0 \<or> compare b a \<le> 0"
    and "\<forall>a b c. compare a b \<le> 0 \<longrightarrow> compare b c \<le> 0 \<longrightarrow> compare a c \<le> 0"
  shows "sorted_wrt (\<lambda>a b. compare a b \<le> 0) (array_sort compare xs)"
  by (induction xs) (simp_all add: sorted_insert_sorted [OF assms])

lemma codepoint_compare_total: "codepoint_compare a b \<le> 0 \<or> codepoint_compare b a \<le> 0"
  by (induction a b rule: codepoint_compare.induct) auto

lemma codepoint_compare_trans:
  "codepoint_compare a b \<le> 0 \<Longrightarrow> codepoint_compare b c \<le> 0 \<Longrightarrow> codepoint_compare a c \<le> 0"
proof (induction a arbitrary: b c)
  case Nil
  then show ?case by (cases c) simp_all
next
  case (Cons x xs)
  from Cons.prems obtain y ys where b: "b = y # ys" by (cases b) auto
  from Cons.prems b obtain z zs where c: "c = z # zs" by (cases c) auto
  from Cons.prems Cons.IH [of ys zs] show ?case
    unfolding b c by (auto split: if_splits)
qed

text \<open>
  C3, counterexample: on a host whose collation ranks letters without regard to case
  first, the files \<open>a.ts\<close> and \<open>B.ts\<close> give the line of \<open>a\<close> before the line of \<open>B\<close>,
  which is not the order of their code units (\<open>B\<close> is 66, \<open>a\<close> is 97).
\<close>

theorem collation_order_not_codepoint:
  "main_gen_package_exports (package_host [''a.ts'', ''B.ts'']) argv_default
     = Inr (package_tree(''/w/src/index.ts'' \<mapsto>
         File (artifact [''export * from '' @ [CHR 0x22] @ ''./a.js'' @ [CHR 0x22],
                         ''export * from '' @ [CHR 0x22] @ ''./B.js'' @ [CHR 0x22]])))
   \<and> \<not> codepoint_sorted [''export * from '' @ [CHR 0x22] @ ''./a.js'' @ [CHR 0x22],
                           ''export * from '' @ [CHR 0x22] @ ''./B.js'' @ [CHR 0x22]]"
  by (simp add: main_eval path_eval fmtu_eval fs_eval codepoint_sorted_def)

text \<open>
  C3, as amended: the lines are sorted by the comparator the source passes to \<open>sort\<close>,
  the \<open>localeCompare\<close> of the host. For every host whose \<open>localeCompare\<close> is a
  consistent comparator (total and transitive), the sorted lines are in non-decreasing
  order of \<open>localeCompare\<close>, they are a permutation of the collected lines, and a run that
  succeeds writes them, under the header, to the index file.
\<close>

theorem sorted_by_localeCompare:
  assumes "\<forall>a b. localeCompare h a b \<le> 0 \<or> localeCompare h b a \<le> 0"
    and "\<forall>a b c. localeCompare h a b \<le> 0 \<longrightarrow> localeCompare h b c \<le> 0
                    \<longrightarrow> localeCompare h a c \<le> 0"
  shows "sorted_wrt (\<lambda>a b. localeCompare h a b \<le> 0) (sorted_lines h argv base_path out_path)
       \<and> mset (sorted_lines h argv base_path out_path)
           = mset (collect_lines h argv base_path out_path)
       \<and> (main_gen_package_exports h argv = Inr fs' \<longrightarrow>
            fs' (export_path_of h argv) =
              Some (File (artifact (sorted_lines h argv (base_path_of h argv) (out_path_of h argv)))))"
proof (intro conjI impI)
  show "sorted_wrt (\<lambda>a b. localeCompare h a b \<le> 0) (sorted_lines h argv base_path out_path)"
    unfolding sorted_lines_def using assms by (rule sorted_array_sort)
  show "mset (sorted_lines h argv base_path out_path) = mset (collect_lines h argv base_path out_path)"
    by (simp add: sorted_lines_def mset_array_sort)
next
  assume "main_gen_package_exports h argv = Inr fs'"
  then have "fs' = (files h)(export_path_of h argv \<mapsto>
      File (artifact (sorted_lines h argv (base_path_of h argv) (out_path_of h argv))))"
    by (rule main_success)
  then show "fs' (export_path_of h argv) =
      Some (File (artifact (sorted_lines h argv (base_path_of h argv) (out_path_of h argv))))"
    by simp
qed

theorem sorted_by_localeCompare_witness:
  "sorted_lines ((package_host [''a.ts'', ''B.ts''])\<lparr>localeCompare := codepoint_compare\<rparr>)
      argv_default ''/w/src'' ''/w/src''
     = [''export * from '' @ [CHR 0x22] @ ''./B.js'' @ [CHR 0x22],
        ''export * from '' @ [CHR 0x22] @ ''./a.js'' @ [CHR 0x22]]
   \<and> sorted_wrt (\<lambda>a b. codepoint_compare a b \<le> 0)
        (sorted_lines ((package_host [''a.ts'', ''B.ts''])\<lparr>localeCompare := codepoint_compare\<rparr>)
           argv_default ''/w/src'' ''/w/src'')
   \<and> main_gen_package_exports
        ((package_host [''a.ts'', ''B.ts''])\<lparr>localeCompare := codepoint_compare\<rparr>) argv_default
     = Inr (package_tree(''/w/src/index.ts'' \<mapsto>
         File (artifact [''export * from '' @ [CHR 0x22] @ ''./B.js'' @ [CHR 0x22],
                         ''export * from '' @ [CHR 0x22] @ ''./a.js'' @ [CHR 0x22]])))
   \<and> (package_tree(''/w/src/index.ts'' \<mapsto>
         File (artifact [''export * from '' @ [CHR 0x22] @ ''./B.js'' @ [CHR 0x22],
                         ''export * from '' @ [CHR 0x22] @ ''./a.js'' @ [CHR 0x22]])))
        (export_path_of ((package_host [''a.ts'', ''B.ts''])\<lparr>localeCompare := codepoint_compare\<rparr>)
           argv_default)
     = Some (File (artifact
         (sorted_lines ((package_host [''a.ts'', ''B.ts''])\<lparr>localeCompare := codepoint_compare\<rparr>)
            argv_default
            (base_path_of ((package_host [''a.ts'', ''B.ts''])\<lparr>localeCompare := codepoint_compare\<rparr>)
               argv_default)
            (out_path_of ((package_host [''a.ts'', ''B.ts''])\<lparr>localeCompare := codepoint_compare\<rparr>)
               argv_default))))"
proof -
  let ?h = "(package_host [''a.ts'', ''B.ts''])\<lparr>localeCompare := codepoint_compare\<rparr>"
  have cmp: "localeCompare ?h = codepoint_compare" by simp
  have total: "\<forall>a b. localeCompare ?h a b \<le> 0 \<or> localeCompare ?h b a \<le> 0"
    unfolding cmp by (intro allI codepoint_compare_total)
  have trans: "\<forall>a b c. localeCompare ?h a b \<le> 0 \<longrightarrow> localeCompare ?h b c \<le> 0
                 \<longrightarrow> localeCompare ?h a c \<le> 0"
    unfolding cmp by (intro allI impI) (rule codepoint_compare_trans)
  have lines: "sorted_lines ?h argv_default ''/w/src'' ''/w/src''
     = [''export * from '' @ [CHR 0x22] @ ''./B.js'' @ [CHR 0x22],
        ''export * from '' @ [CHR 0x22] @ ''./a.js'' @ [CHR 0x22]]"
    by (simp add: main_eval path_eval fmtu_eval)
  have run: "main_gen_package_exports ?h argv_default
     = Inr (package_tree(''/w/src/index.ts'' \<mapsto>
         File (artifact [''export * from '' @ [CHR 0x22] @ ''./B.js'' @ [CHR 0x22],
                         ''export * from '' @ [CHR 0x22] @ ''./a.js'' @ [CHR 0x22]])))"
    by (simp add: main_eval path_eval fmtu_eval fs_eval)
  note inst = sorted_by_localeCompare [OF total trans]
  have "sorted_wrt (\<lambda>a b. localeCompare ?h a b \<le> 0)
          (sorted_lines ?h argv_default ''/w/src'' ''/w/src'')"
    by (rule inst [THEN conjunct1])
  then have sorted: "sorted_wrt (\<lambda>a b. codepoint_compare a b \<le> 0)
          (sorted_lines ?h argv_default ''/w/src'' ''/w/src'')"
    unfolding cmp .
  note written = inst [THEN conjunct2, THEN conjunct2, THEN mp, OF run]
  show ?thesis
    by (rule conjI [OF lines conjI [OF sorted conjI [OF run written]]])
qed

text \<open>
  C1: with a matched file \<open>1card.svelte\<close> the run does not fail: lines 152 to 154 derive
  the name \<open>1card\<close> and write an export under it, although \<open>1card\<close> is not an
  identifier. With \<open>a.b.svelte\<close>, whose basename neither is empty nor starts with a digit,
  the name written is \<open>A.b\<close>, not an identifier either.
\<close>

theorem digit_name_run_succeeds:
  "main_gen_package_exports (package_host [''1card.svelte'']) argv_default
     = Inr (package_tree(''/w/src/index.ts'' \<mapsto>
         File (artifact [''export { default as 1card } from '' @ [CHR 0x22] @ ''./1card'' @ [CHR 0x22]])))
   \<and> \<not> is_identifier ''1card''
   \<and> main_gen_package_exports (package_host [''a.b.svelte'']) argv_default
     = Inr (package_tree(''/w/src/index.ts'' \<mapsto>
         File (artifact [''export { default as A.b } from '' @ [CHR 0x22] @ ''./a.b'' @ [CHR 0x22]])))
   \<and> \<not> is_identifier ''A.b''"
  by (simp add: main_eval path_eval fmtu_eval fs_eval is_identifier_def)

lemma fs_write_creates_or_truncates:
  assumes "fs_write fs p contents = Inr fs'"
  shows "fs' p = Some (File contents) \<and> (\<forall>q. q \<noteq> p \<longrightarrow> fs' q = fs q)"
  using assms by (auto simp: fs_write_def writeFileSync_def split: if_splits)

text \<open>
  C2: in a package whose \<open>src\<close> directory has no \<open>index.ts\<close> yet, the run with the default
  arguments throws \<open>Path not found\<close> at line 95, before anything is written; the write
  itself, on the same file system, would have created the file.
\<close>

theorem missing_index_aborts:
  "main_gen_package_exports ((package_host [''a.ts''])\<lparr>files := fresh_tree\<rparr>) argv_default
     = Inl (Error ''Path not found: /w/src/index.ts'')
   \<and> fs_write fresh_tree ''/w/src/index.ts'' (artifact [])
     = Inr (fresh_tree(''/w/src/index.ts'' \<mapsto> File (artifact [])))"
  by (simp add: main_eval path_eval fs_eval)

text \<open>
  C4: with the sources in \<open>.hidden\<close> and the index written to the package directory, the
  path from the output directory to \<open>a.ts\<close> is \<open>.hidden/a\<close>. It begins with a dot, so line
  144 leaves it as it is, and the line written imports from \<open>.hidden/a.js\<close>, which begins
  with neither \<open>./\<close> nor \<open>../\<close>.
\<close>

theorem dot_directory_bare_specifier:
  "import_specifier ((package_host [''a.ts''])\<lparr>files := dot_tree\<rparr>) ''/w/.hidden'' ''/w'' ''a.ts''
     = ''.hidden/a''
   \<and> \<not> startsWith ''.hidden/a'' ''./'' \<and> \<not> startsWith ''.hidden/a'' ''../''
   \<and> main_gen_package_exports ((package_host [''a.ts''])\<lparr>files := dot_tree\<rparr>)
        (argv_default\<lparr>dir := ''.hidden'', out := ''.''\<rparr>)
     = Inr (dot_tree(''/w/index.ts'' \<mapsto>
         File (artifact [''export * from '' @ [CHR 0x22] @ ''.hidden/a.js'' @ [CHR 0x22]])))"
  by (simp add: main_eval path_eval fmtu_eval fs_eval)

end
